theory Spec2Isabelle
  imports Complex_Main
begin

section \<open>Graph model of the tensor library used by hw1.py\<close>

text \<open>
  hw1.py builds TensorFlow 1.x computation graphs. Every function of the file is a short
  sequence of library calls, so the embedding has two layers: a model of the library calls
  the file makes (graph nodes with their static shape and dtype, and the construction-time
  checks that make a call raise), and on top of it the functions of hw1.py themselves, call
  by call. Python 3 semantics are used for the arithmetic of the file (\<open>2 / x_size\<close> is
  true division); the Python float it yields is idealised as a real number.
\<close>

datatype dtype = Float32 | Float64 | Int32

text \<open>A static dimension is a known size or unknown (\<open>None\<close>); a static shape is a list of
  dimensions, or \<open>None\<close> when even the rank is unknown.\<close>

type_synonym dim = "nat option"
type_synonym tshape = "dim list option"

datatype error = IndexError | TypeError | ZeroDivisionError | ValueError

datatype padding = Same | Valid

datatype activation = Linear | ReluActivation

text \<open>One constructor for each library call of hw1.py that creates a graph node.\<close>

datatype tensor =
    Placeholder dtype tshape string
  | Variable tensor string dtype
  | RandomNormal "nat list" real
  | Zeros "nat list"
  | MatMul tensor tensor
  | Add tensor tensor
  | SoftmaxCrossEntropy tensor tensor
  | ReduceMean tensor
  | Softmax tensor
  | Relu tensor
  | Conv2d tensor nat "nat list" padding activation string
  | Reshape tensor "int list"

subsection \<open>Static shape inference\<close>

definition dim_compatible :: "dim \<Rightarrow> dim \<Rightarrow> bool" where
  "dim_compatible d1 d2 = (d1 = None \<or> d2 = None \<or> d1 = d2)"

definition shape_compatible :: "tshape \<Rightarrow> tshape \<Rightarrow> bool" where
  "shape_compatible s1 s2 =
     (case (s1, s2) of
        (Some a, Some b) \<Rightarrow> length a = length b \<and> list_all2 dim_compatible a b
      | _ \<Rightarrow> True)"

fun with_rank2 :: "tshape \<Rightarrow> error + (dim \<times> dim)" where
  "with_rank2 None = Inr (None, None)"
| "with_rank2 (Some [r, c]) = Inr (r, c)"
| "with_rank2 (Some ds) = Inl ValueError"

definition matmul_shape :: "tshape \<Rightarrow> tshape \<Rightarrow> error + tshape" where
  "matmul_shape a b =
     (case with_rank2 a of
        Inl e \<Rightarrow> Inl e
      | Inr (r, k1) \<Rightarrow>
          (case with_rank2 b of
             Inl e \<Rightarrow> Inl e
           | Inr (k2, c) \<Rightarrow>
               if dim_compatible k1 k2 then Inr (Some [r, c]) else Inl ValueError))"

fun broadcast_dim :: "dim \<Rightarrow> dim \<Rightarrow> error + dim" where
  "broadcast_dim (Some m) (Some n) =
     (if m = n then Inr (Some m)
      else if m = 1 then Inr (Some n)
      else if n = 1 then Inr (Some m)
      else Inl ValueError)"
| "broadcast_dim (Some m) None = (if 1 < m then Inr (Some m) else Inr None)"
| "broadcast_dim None (Some n) = (if 1 < n then Inr (Some n) else Inr None)"
| "broadcast_dim None None = Inr None"

text \<open>Broadcasting aligns the two shapes at their last dimension; the lists are reversed here.\<close>

fun broadcast_rev :: "dim list \<Rightarrow> dim list \<Rightarrow> error + dim list" where
  "broadcast_rev [] ys = Inr ys"
| "broadcast_rev (x # xs) [] = Inr (x # xs)"
| "broadcast_rev (x # xs) (y # ys) =
     (case broadcast_dim x y of
        Inl e \<Rightarrow> Inl e
      | Inr d \<Rightarrow> (case broadcast_rev xs ys of Inl e \<Rightarrow> Inl e | Inr ds \<Rightarrow> Inr (d # ds)))"

definition broadcast_shape :: "tshape \<Rightarrow> tshape \<Rightarrow> error + tshape" where
  "broadcast_shape a b =
     (case (a, b) of
        (Some xs, Some ys) \<Rightarrow>
          (case broadcast_rev (rev xs) (rev ys) of
             Inl e \<Rightarrow> Inl e
           | Inr ds \<Rightarrow> Inr (Some (rev ds)))
      | _ \<Rightarrow> Inr None)"

text \<open>Output size of one spatial dimension of a stride-1 convolution with window \<open>k\<close>.\<close>

fun conv_out_dim :: "padding \<Rightarrow> nat \<Rightarrow> dim \<Rightarrow> error + dim" where
  "conv_out_dim Same k d = Inr d"
| "conv_out_dim Valid k None = Inr None"
| "conv_out_dim Valid k (Some n) = (if n < k then Inl ValueError else Inr (Some (n + 1 - k)))"

text \<open>\<open>tf.layers.conv2d\<close> wants a rank-4 input (batch, height, width, channels) whose channel
  dimension is defined, and a kernel size of two entries.\<close>

fun conv2d_shape :: "tshape \<Rightarrow> nat \<Rightarrow> nat list \<Rightarrow> padding \<Rightarrow> error + tshape" where
  "conv2d_shape (Some [b, h, w, Some c]) filters [kh, kw] p =
     (case conv_out_dim p kh h of
        Inl e \<Rightarrow> Inl e
      | Inr h' \<Rightarrow>
          (case conv_out_dim p kw w of
             Inl e \<Rightarrow> Inl e
           | Inr w' \<Rightarrow> Inr (Some [b, h', w', Some filters])))"
| "conv2d_shape s filters ks p = Inl ValueError"

text \<open>\<open>tf.reshape\<close>: at most one entry of the requested shape is \<open>-1\<close>; it is inferred when
  the number of elements of the input is known and divisible, and stays unknown otherwise.\<close>

definition known_dims :: "int list \<Rightarrow> int list" where
  "known_dims req = filter (\<lambda>d. d \<noteq> - 1) req"

fun num_elements :: "dim list \<Rightarrow> nat option" where
  "num_elements [] = Some 1"
| "num_elements (None # ds) = None"
| "num_elements (Some n # ds) = (case num_elements ds of None \<Rightarrow> None | Some m \<Rightarrow> Some (n * m))"

definition reshape_shape :: "tshape \<Rightarrow> int list \<Rightarrow> error + tshape" where
  "reshape_shape s req =
     (if (\<exists>d \<in> set req. d < - 1) \<or> 1 < length (filter (\<lambda>d. d = - 1) req) then Inl ValueError
      else
        let p = nat (prod_list (known_dims req));
            total = (case s of None \<Rightarrow> None | Some ds \<Rightarrow> num_elements ds)
        in (case total of
              None \<Rightarrow> Inr (Some (map (\<lambda>d. if d = - 1 then None else Some (nat d)) req))
            | Some t \<Rightarrow>
                if - 1 \<in> set req then
                  (if p = 0 then Inr (Some (map (\<lambda>d. if d = - 1 then None else Some (nat d)) req))
                   else if t mod p \<noteq> 0 then Inl ValueError
                   else Inr (Some (map (\<lambda>d. if d = - 1 then Some (t div p) else Some (nat d)) req)))
                else if t = p then Inr (Some (map (\<lambda>d. Some (nat d)) req))
                else Inl ValueError))"

fun get_shape :: "tensor \<Rightarrow> tshape" where
  "get_shape (Placeholder dt s nm) = s"
| "get_shape (Variable init nm dt) = get_shape init"
| "get_shape (RandomNormal ds sd) = Some (map Some ds)"
| "get_shape (Zeros ds) = Some (map Some ds)"
| "get_shape (MatMul a b) =
     (case matmul_shape (get_shape a) (get_shape b) of Inl e \<Rightarrow> None | Inr s \<Rightarrow> s)"
| "get_shape (Add a b) =
     (case broadcast_shape (get_shape a) (get_shape b) of Inl e \<Rightarrow> None | Inr s \<Rightarrow> s)"
| "get_shape (SoftmaxCrossEntropy labels logits) = Some []"
| "get_shape (ReduceMean t) = Some []"
| "get_shape (Softmax t) = get_shape t"
| "get_shape (Relu t) = get_shape t"
| "get_shape (Conv2d t filters ks p act nm) =
     (case conv2d_shape (get_shape t) filters ks p of Inl e \<Rightarrow> None | Inr s \<Rightarrow> s)"
| "get_shape (Reshape t req) =
     (case reshape_shape (get_shape t) req of Inl e \<Rightarrow> None | Inr s \<Rightarrow> s)"

fun dtype_of :: "tensor \<Rightarrow> dtype" where
  "dtype_of (Placeholder dt s nm) = dt"
| "dtype_of (Variable init nm dt) = dt"
| "dtype_of (RandomNormal ds sd) = Float32"
| "dtype_of (Zeros ds) = Float32"
| "dtype_of (MatMul a b) = dtype_of a"
| "dtype_of (Add a b) = dtype_of a"
| "dtype_of (SoftmaxCrossEntropy labels logits) = dtype_of logits"
| "dtype_of (ReduceMean t) = dtype_of t"
| "dtype_of (Softmax t) = dtype_of t"
| "dtype_of (Relu t) = dtype_of t"
| "dtype_of (Conv2d t filters ks p act nm) = dtype_of t"
| "dtype_of (Reshape t req) = dtype_of t"

subsection \<open>Graph construction as state passing\<close>

text \<open>
  The default graph is the list of the nodes created so far, in creation order. A builder
  takes the graph and returns its result, or the error it raised, with the graph as it
  was when the builder returned or raised.
\<close>

type_synonym graph = "tensor list"
type_synonym 'a build = "graph \<Rightarrow> (error + 'a) \<times> graph"

definition return_b :: "'a \<Rightarrow> 'a build" where
  "return_b a = (\<lambda>g. (Inr a, g))"

definition raise_b :: "error \<Rightarrow> 'a build" where
  "raise_b e = (\<lambda>g. (Inl e, g))"

definition bind_b :: "'a build \<Rightarrow> ('a \<Rightarrow> 'b build) \<Rightarrow> 'b build" where
  "bind_b m f = (\<lambda>g. case m g of (Inl e, g') \<Rightarrow> (Inl e, g') | (Inr a, g') \<Rightarrow> f a g')"

definition of_result :: "error + 'a \<Rightarrow> 'a build" where
  "of_result r = (case r of Inl e \<Rightarrow> raise_b e | Inr a \<Rightarrow> return_b a)"

definition add_op :: "tensor \<Rightarrow> tensor build" where
  "add_op t = (\<lambda>g. (Inr t, g @ [t]))"

subsection \<open>The library calls\<close>

definition tf_placeholder :: "dtype \<Rightarrow> tshape \<Rightarrow> string \<Rightarrow> tensor build" where
  "tf_placeholder dt s nm = add_op (Placeholder dt s nm)"

definition tf_random_normal :: "nat list \<Rightarrow> real \<Rightarrow> tensor build" where
  "tf_random_normal ds stddev = add_op (RandomNormal ds stddev)"

definition tf_zeros :: "nat list \<Rightarrow> tensor build" where
  "tf_zeros ds = add_op (Zeros ds)"

definition fully_defined :: "tshape \<Rightarrow> bool" where
  "fully_defined s = (case s of None \<Rightarrow> False | Some ds \<Rightarrow> list_all (\<lambda>d. d \<noteq> None) ds)"

definition tf_Variable :: "tensor \<Rightarrow> string \<Rightarrow> dtype \<Rightarrow> tensor build" where
  "tf_Variable init nm dt =
     (if \<not> fully_defined (get_shape init) then raise_b ValueError
      else if dtype_of init \<noteq> dt then raise_b ValueError
      else add_op (Variable init nm dt))"

definition tf_matmul :: "tensor \<Rightarrow> tensor \<Rightarrow> tensor build" where
  "tf_matmul a b =
     (if dtype_of a \<noteq> dtype_of b then raise_b TypeError
      else case matmul_shape (get_shape a) (get_shape b) of
             Inl e \<Rightarrow> raise_b e
           | Inr s \<Rightarrow> add_op (MatMul a b))"

definition tf_add :: "tensor \<Rightarrow> tensor \<Rightarrow> tensor build" where
  "tf_add a b =
     (if dtype_of a \<noteq> dtype_of b then raise_b TypeError
      else case broadcast_shape (get_shape a) (get_shape b) of
             Inl e \<Rightarrow> raise_b e
           | Inr s \<Rightarrow> add_op (Add a b))"

definition is_floating :: "dtype \<Rightarrow> bool" where
  "is_floating dt = (dt = Float32 \<or> dt = Float64)"

text \<open>\<open>tf.losses.softmax_cross_entropy\<close> with its default arguments (weights 1.0, reduction
  \<open>SUM_BY_NONZERO_WEIGHTS\<close>): the shapes of logits and labels must be compatible, and the
  node it returns is the reduced, scalar loss.\<close>

definition tf_losses_softmax_cross_entropy :: "tensor \<Rightarrow> tensor \<Rightarrow> tensor build" where
  "tf_losses_softmax_cross_entropy onehot_labels logits =
     (if \<not> shape_compatible (get_shape logits) (get_shape onehot_labels) then raise_b ValueError
      else if \<not> is_floating (dtype_of logits) then raise_b TypeError
      else add_op (SoftmaxCrossEntropy onehot_labels logits))"

definition tf_reduce_mean :: "tensor \<Rightarrow> tensor build" where
  "tf_reduce_mean t = add_op (ReduceMean t)"

definition tf_nn_softmax :: "tensor \<Rightarrow> tensor build" where
  "tf_nn_softmax t =
     (if get_shape t = Some [] then raise_b ValueError
      else if \<not> is_floating (dtype_of t) then raise_b TypeError
      else add_op (Softmax t))"

definition tf_nn_relu :: "tensor \<Rightarrow> tensor build" where
  "tf_nn_relu t = add_op (Relu t)"

definition lower_char :: "char \<Rightarrow> char" where
  "lower_char c =
     (let n = (of_char c :: nat) in if 65 \<le> n \<and> n \<le> 90 then char_of (n + 32) else c)"

definition normalize_padding :: "string \<Rightarrow> error + padding" where
  "normalize_padding s =
     (let l = map lower_char s in
      if l = ''same'' then Inr Same else if l = ''valid'' then Inr Valid else Inl ValueError)"

definition tf_layers_conv2d ::
    "tensor \<Rightarrow> nat \<Rightarrow> nat list \<Rightarrow> string \<Rightarrow> activation \<Rightarrow> string \<Rightarrow> tensor build" where
  "tf_layers_conv2d inputs filters kernel_size pad act nm =
     (case normalize_padding pad of
        Inl e \<Rightarrow> raise_b e
      | Inr p \<Rightarrow>
          (if \<not> is_floating (dtype_of inputs) then raise_b TypeError
           else (case conv2d_shape (get_shape inputs) filters kernel_size p of
                   Inl e \<Rightarrow> raise_b e
                 | Inr s \<Rightarrow> add_op (Conv2d inputs filters kernel_size p act nm))))"

definition tf_reshape :: "tensor \<Rightarrow> int list \<Rightarrow> tensor build" where
  "tf_reshape t req =
     (case reshape_shape (get_shape t) req of
        Inl e \<Rightarrow> raise_b e
      | Inr s \<Rightarrow> add_op (Reshape t req))"

subsection \<open>Python-level steps\<close>

text \<open>\<open>X.get_shape()[i].value\<close>: indexing a shape of unknown rank gives an unknown
  dimension, indexing a shape of known rank past its rank is an IndexError; \<open>.value\<close> of a
  dimension is its size or \<open>None\<close>.\<close>

definition shape_index :: "tshape \<Rightarrow> nat \<Rightarrow> error + dim" where
  "shape_index s i =
     (case s of
        None \<Rightarrow> Inr None
      | Some ds \<Rightarrow> if i < length ds then Inr (ds ! i) else Inl IndexError)"

definition list_index :: "'a list \<Rightarrow> nat \<Rightarrow> error + 'a" where
  "list_index xs i = (if i < length xs then Inr (xs ! i) else Inl IndexError)"

text \<open>\<open>2 / x\<close> where \<open>x\<close> is an int or \<open>None\<close>.\<close>

fun py_two_over :: "dim \<Rightarrow> error + real" where
  "py_two_over None = Inl TypeError"
| "py_two_over (Some n) = (if n = 0 then Inl ZeroDivisionError else Inr (2 / real n))"

text \<open>\<open>a * b\<close> where each of \<open>a\<close>, \<open>b\<close> is an int or \<open>None\<close>.\<close>

fun py_mul :: "dim \<Rightarrow> dim \<Rightarrow> error + dim" where
  "py_mul (Some a) (Some b) = Inr (Some (a * b))"
| "py_mul a b = Inl TypeError"

section \<open>The functions of hw1.py\<close>

definition input_placeholder :: "tensor build" where
  "input_placeholder = tf_placeholder Float32 (Some [None, Some 784]) ''image_input''"

definition target_placeholder :: "tensor build" where
  "target_placeholder = tf_placeholder Float32 (Some [None, Some 10]) ''image_target_onehot''"

type_synonym outputs6 = "tensor \<times> tensor \<times> tensor \<times> tensor \<times> tensor \<times> tensor"

definition onelayer :: "tensor \<Rightarrow> tensor \<Rightarrow> nat \<Rightarrow> outputs6 build" where
  "onelayer X Y layersize =
     bind_b (of_result (shape_index (get_shape X) 1)) (\<lambda>x_size.
     bind_b (of_result (py_two_over x_size)) (\<lambda>var.
     let std_dev = sqrt var in
     bind_b (tf_random_normal [the x_size, layersize] std_dev) (\<lambda>w_init.
     bind_b (tf_Variable w_init ''weights'' Float32) (\<lambda>w.
     bind_b (tf_zeros [layersize]) (\<lambda>b_init.
     bind_b (tf_Variable b_init ''biases'' Float32) (\<lambda>b.
     bind_b (tf_matmul X w) (\<lambda>xw.
     bind_b (tf_add xw b) (\<lambda>logits.
     bind_b (tf_losses_softmax_cross_entropy Y logits) (\<lambda>batch_xentropy.
     bind_b (tf_reduce_mean batch_xentropy) (\<lambda>batch_loss.
     bind_b (tf_nn_softmax logits) (\<lambda>preds.
     return_b (w, b, logits, preds, batch_xentropy, batch_loss))))))))))))"

type_synonym outputs8 =
  "tensor \<times> tensor \<times> tensor \<times> tensor \<times> tensor \<times> tensor \<times> tensor \<times> tensor"

definition twolayer :: "tensor \<Rightarrow> tensor \<Rightarrow> nat \<Rightarrow> nat \<Rightarrow> outputs8 build" where
  "twolayer X Y hiddensize outputsize =
     bind_b (of_result (shape_index (get_shape X) 1)) (\<lambda>x_size.
     bind_b (of_result (py_two_over x_size)) (\<lambda>var1.
     let std_dev1 = sqrt var1 in
     bind_b (of_result (py_two_over (Some hiddensize))) (\<lambda>var2.
     let std_dev2 = sqrt var2 in
     bind_b (tf_random_normal [the x_size, hiddensize] std_dev1) (\<lambda>w1_init.
     bind_b (tf_Variable w1_init ''layer_1_weights'' Float32) (\<lambda>w1.
     bind_b (tf_zeros [hiddensize]) (\<lambda>b1_init.
     bind_b (tf_Variable b1_init ''layer_1_biases'' Float32) (\<lambda>b1.
     bind_b (tf_random_normal [hiddensize, outputsize] std_dev2) (\<lambda>w2_init.
     bind_b (tf_Variable w2_init ''layer_2_weights'' Float32) (\<lambda>w2.
     bind_b (tf_zeros [outputsize]) (\<lambda>b2_init.
     bind_b (tf_Variable b2_init ''layer_2_biases'' Float32) (\<lambda>b2.
     bind_b (tf_matmul X w1) (\<lambda>xw1.
     bind_b (tf_add xw1 b1) (\<lambda>layer1_activation.
     bind_b (tf_nn_relu layer1_activation) (\<lambda>layer1_output.
     bind_b (tf_matmul layer1_output w2) (\<lambda>hw2.
     bind_b (tf_add hw2 b2) (\<lambda>logits.
     bind_b (tf_losses_softmax_cross_entropy Y logits) (\<lambda>batch_xentropy.
     bind_b (tf_reduce_mean batch_xentropy) (\<lambda>batch_loss.
     bind_b (tf_nn_softmax logits) (\<lambda>preds.
     return_b (w1, b1, w2, b2, logits, preds, batch_xentropy, batch_loss))))))))))))))))))))"

text \<open>The parameter \<open>padding\<close> of \<open>convnet\<close> is not read by its body: both calls of
  \<open>tf.layers.conv2d\<close> pass the literal \<open>"same"\<close>.\<close>

definition convnet ::
    "tensor \<Rightarrow> tensor \<Rightarrow> nat list \<Rightarrow> nat list \<Rightarrow> nat \<Rightarrow> string \<Rightarrow> outputs8 build" where
  "convnet X Y convlayer_sizes filter_shape outputsize padding =
     bind_b (of_result (shape_index (get_shape X) 1)) (\<lambda>image_x.
     bind_b (of_result (shape_index (get_shape X) 2)) (\<lambda>image_y.
     bind_b (of_result (list_index convlayer_sizes 0)) (\<lambda>filters1.
     bind_b (tf_layers_conv2d X filters1 filter_shape ''same'' ReluActivation ''conv1'') (\<lambda>conv1.
     bind_b (of_result (list_index convlayer_sizes 1)) (\<lambda>filters2.
     bind_b (tf_layers_conv2d conv1 filters2 filter_shape ''same'' ReluActivation ''conv2'') (\<lambda>conv2.
     bind_b (of_result (py_mul image_x image_y)) (\<lambda>xy.
     bind_b (of_result (list_index convlayer_sizes 1)) (\<lambda>c.
     bind_b (of_result (py_mul xy (Some c))) (\<lambda>n.
     bind_b (tf_reshape conv2 [- 1, int (the n)]) (\<lambda>conv2_vector.
     bind_b (onelayer conv2_vector Y outputsize) (\<lambda>(w, b, logits, preds, batch_xentropy, batch_loss).
     return_b (conv1, conv2, w, b, logits, preds, batch_xentropy, batch_loss))))))))))))"

subsection \<open>The training step\<close>

text \<open>
  The session is not part of hw1.py: it is a parameter, a state \<open>'s\<close> with its \<open>run\<close>
  method. \<open>run\<close> takes the list of fetches and the feed dictionary and returns one
  value per fetch, or raises, and the state after the call. A Python dict literal with two
  equal keys keeps the later binding, as the map update does.
\<close>

type_synonym ('s, 'v) run =
  "'s \<Rightarrow> tensor list \<Rightarrow> (tensor \<rightharpoonup> 'v) \<Rightarrow> (error + 'v list) \<times> 's"

definition train_step ::
    "('s, 'v) run \<Rightarrow> 's \<Rightarrow> 'v list \<Rightarrow> tensor \<Rightarrow> tensor \<Rightarrow> tensor \<Rightarrow> tensor \<Rightarrow> tensor
       \<Rightarrow> (error + ('v \<times> 'v \<times> 'v)) \<times> 's" where
  "train_step run sess batch X Y train_op loss_op summaries_op =
     (case list_index batch 0 of
        Inl e \<Rightarrow> (Inl e, sess)
      | Inr b0 \<Rightarrow>
          (case list_index batch 1 of
             Inl e \<Rightarrow> (Inl e, sess)
           | Inr b1 \<Rightarrow>
               (case run sess [train_op, loss_op, summaries_op] (Map.empty(X \<mapsto> b0, Y \<mapsto> b1)) of
                  (Inl e, sess') \<Rightarrow> (Inl e, sess')
                | (Inr [train_result, loss, summary], sess') \<Rightarrow>
                    (Inr (train_result, loss, summary), sess')
                | (Inr rs, sess') \<Rightarrow> (Inl ValueError, sess'))))"

text \<open>A session instrumented with the number of \<open>run\<close> calls made on it.\<close>

definition counting :: "('s, 'v) run \<Rightarrow> (nat \<times> 's, 'v) run" where
  "counting run = (\<lambda>(n, s) fetches feed. case run s fetches feed of (r, s') \<Rightarrow> (r, (Suc n, s')))"

subsection \<open>Run-time values\<close>


text \<open>A placeholder accepts a fed array whose dimensions are compatible with its static shape.\<close>

definition feed_compatible :: "tensor \<Rightarrow> nat list \<Rightarrow> bool" where
  "feed_compatible t ds = shape_compatible (get_shape t) (Some (map Some ds))"







section \<open>Properties\<close>

subsection \<open>Evaluation of the builder steps\<close>

lemma bind_b_return [simp]: "bind_b (return_b a) f g = f a g"
  by (simp add: bind_b_def return_b_def)

lemma bind_b_raise [simp]: "bind_b (raise_b e) f g = (Inl e, g)"
  by (simp add: bind_b_def raise_b_def)

lemma bind_b_add_op [simp]: "bind_b (add_op t) f g = f t (g @ [t])"
  by (simp add: bind_b_def add_op_def)

lemma of_result_simps [simp]:
  "of_result (Inl e) = raise_b e" "of_result (Inr a) = return_b a"
  by (simp_all add: of_result_def)

lemma return_b_apply [simp]: "return_b a g = (Inr a, g)"
  by (simp add: return_b_def)

lemma raise_b_apply [simp]: "raise_b e g = (Inl e, g)"
  by (simp add: raise_b_def)

lemma add_op_apply [simp]: "add_op t g = (Inr t, g @ [t])"
  by (simp add: add_op_def)

lemma bind_b_Inr:
  "bind_b m f g = (Inr r, g') \<longleftrightarrow> (\<exists>a g1. m g = (Inr a, g1) \<and> f a g1 = (Inr r, g'))"
  by (auto simp add: bind_b_def split: prod.splits sum.splits)

lemma fully_defined_known [simp]: "fully_defined (Some (map Some ds))"
  by (simp add: fully_defined_def list_all_iff)

lemma tf_Variable_random_normal [simp]:
  "tf_Variable (RandomNormal ds sd) nm Float32 = add_op (Variable (RandomNormal ds sd) nm Float32)"
  by (simp add: tf_Variable_def)

lemma tf_Variable_zeros [simp]:
  "tf_Variable (Zeros ds) nm Float32 = add_op (Variable (Zeros ds) nm Float32)"
  by (simp add: tf_Variable_def)

lemma matmul_shape_rank2 [simp]:
  "matmul_shape (Some [r, Some k]) (Some [Some k, c]) = Inr (Some [r, c])"
  by (simp add: matmul_shape_def dim_compatible_def)

lemma broadcast_bias [simp]:
  "broadcast_shape (Some [r, Some n]) (Some [Some n]) = Inr (Some [r, Some n])"
  by (simp add: broadcast_shape_def)

lemma with_rank2_Some: "with_rank2 (Some ds) = Inr (r, k) \<Longrightarrow> ds = [r, k]"
  by (erule with_rank2.elims) auto

lemma of_result_Inr: "of_result r g = (Inr a, g1) \<longleftrightarrow> r = Inr a \<and> g1 = g"
  by (cases r) auto

lemma list_index_Inr: "list_index xs i = Inr a \<longleftrightarrow> i < length xs \<and> a = xs ! i"
  by (auto simp add: list_index_def)

lemma shape_index_Inr:
  "shape_index s i = Inr d \<longleftrightarrow>
     (s = None \<and> d = None) \<or> (\<exists>ds. s = Some ds \<and> i < length ds \<and> d = ds ! i)"
  by (auto simp add: shape_index_def split: option.splits)

lemma py_mul_Inr: "py_mul a b = Inr r \<longleftrightarrow> (\<exists>m n. a = Some m \<and> b = Some n \<and> r = Some (m * n))"
  by (cases "(a, b)" rule: py_mul.cases) auto

lemma tf_matmul_Inr:
  "tf_matmul a b g = (Inr t, g') \<longleftrightarrow>
     dtype_of a = dtype_of b \<and> (\<exists>s. matmul_shape (get_shape a) (get_shape b) = Inr s)
     \<and> t = MatMul a b \<and> g' = g @ [t]"
  by (auto simp add: tf_matmul_def split: sum.splits)

lemma tf_add_Inr:
  "tf_add a b g = (Inr t, g') \<longleftrightarrow>
     dtype_of a = dtype_of b \<and> (\<exists>s. broadcast_shape (get_shape a) (get_shape b) = Inr s)
     \<and> t = Add a b \<and> g' = g @ [t]"
  by (auto simp add: tf_add_def split: sum.splits)

lemma tf_losses_softmax_cross_entropy_Inr:
  "tf_losses_softmax_cross_entropy y l g = (Inr t, g') \<longleftrightarrow>
     shape_compatible (get_shape l) (get_shape y) \<and> is_floating (dtype_of l)
     \<and> t = SoftmaxCrossEntropy y l \<and> g' = g @ [t]"
  by (auto simp add: tf_losses_softmax_cross_entropy_def)

lemma tf_nn_softmax_Inr:
  "tf_nn_softmax l g = (Inr t, g') \<longleftrightarrow>
     get_shape l \<noteq> Some [] \<and> is_floating (dtype_of l) \<and> t = Softmax l \<and> g' = g @ [t]"
  by (auto simp add: tf_nn_softmax_def)

lemma matmul_shape_weights:
  "matmul_shape (Some ds) (Some [Some k, c]) = Inr s \<Longrightarrow> 1 < length ds \<Longrightarrow> ds ! 1 = Some F
     \<Longrightarrow> \<exists>r. ds = [r, Some F] \<and> s = Some [r, c]"
  by (auto simp add: matmul_shape_def split: sum.splits if_splits dest!: with_rank2_Some)

lemma normalize_padding_same [simp]: "normalize_padding ''same'' = Inr Same"
  by (simp add: normalize_padding_def lower_char_def)

lemma conv2d_shape_Same_Inr:
  "conv2d_shape s f ks Same = Inr r \<longleftrightarrow>
     (\<exists>b h w c kh kw. s = Some [b, h, w, Some c] \<and> ks = [kh, kw] \<and> r = Some [b, h, w, Some f])"
  by (cases "(s, f, ks, Same)" rule: conv2d_shape.cases) auto

lemma tf_layers_conv2d_same_Inr:
  "tf_layers_conv2d t f ks ''same'' act nm g = (Inr r, g') \<longleftrightarrow>
     is_floating (dtype_of t) \<and> (\<exists>s. conv2d_shape (get_shape t) f ks Same = Inr s)
     \<and> r = Conv2d t f ks Same act nm \<and> g' = g @ [r]"
  by (auto simp add: tf_layers_conv2d_def split: sum.splits)

lemma tf_reshape_Inr:
  "tf_reshape t req g = (Inr r, g') \<longleftrightarrow>
     (\<exists>s. reshape_shape (get_shape t) req = Inr s) \<and> r = Reshape t req \<and> g' = g @ [r]"
  by (auto simp add: tf_reshape_def split: sum.splits)

lemma reshape_rows:
  "reshape_shape (Some ds) [- 1, int n] =
     (case num_elements ds of
        None \<Rightarrow> Inr (Some [None, Some n])
      | Some t \<Rightarrow>
          if n = 0 then Inr (Some [None, Some 0])
          else if t mod n \<noteq> 0 then Inl ValueError
          else Inr (Some [Some (t div n), Some n]))"
proof -
  have "int n \<noteq> - 1" "\<not> int n < - 1" by simp_all
  then show ?thesis
    by (simp add: reshape_shape_def known_dims_def Let_def split: option.splits)
qed

lemma reshape_flat:
  assumes "n = h * w * c"
  shows "reshape_shape (Some [B, Some h, Some w, Some c]) [- 1, int n] =
     Inr (Some [if n = 0 then None else B, Some n])"
proof (cases B)
  case None
  then show ?thesis by (simp add: reshape_rows)
next
  case (Some b)
  have "b * (h * (w * c)) mod n = 0" using assms by (simp add: mult.assoc)
  moreover have "0 < n \<Longrightarrow> b * (h * (w * c)) div n = b" using assms by (simp add: mult.assoc)
  ultimately show ?thesis using Some
    by (auto simp add: reshape_rows)
qed

subsection \<open>Evaluation and inversion of the builders\<close>

text \<open>What each builder returns on a well-formed input, and that it returns on no other.\<close>

lemma onelayer_eval:
  assumes X: "get_shape X = Some [B, Some F]" and F: "0 < F"
    and dt: "dtype_of X = Float32"
    and Y: "shape_compatible (Some [B, Some layersize]) (get_shape Y)"
  shows "onelayer X Y layersize g =
      (let w = Variable (RandomNormal [F, layersize] (sqrt (2 / real F))) ''weights'' Float32;
           b = Variable (Zeros [layersize]) ''biases'' Float32;
           logits = Add (MatMul X w) b;
           batch_xentropy = SoftmaxCrossEntropy Y logits
       in (Inr (w, b, logits, Softmax logits, batch_xentropy, ReduceMean batch_xentropy),
           g @ [RandomNormal [F, layersize] (sqrt (2 / real F)), w, Zeros [layersize], b,
                MatMul X w, logits, batch_xentropy, ReduceMean batch_xentropy, Softmax logits]))"
  using assms
  by (simp add: onelayer_def shape_index_def tf_random_normal_def tf_zeros_def tf_matmul_def
      tf_add_def tf_losses_softmax_cross_entropy_def tf_reduce_mean_def tf_nn_softmax_def
      is_floating_def Let_def)


lemma onelayer_success:
  assumes "onelayer X Y layersize g = (Inr res, g')"
  shows "\<exists>B F. get_shape X = Some [B, Some F] \<and> 0 < F \<and> dtype_of X = Float32
           \<and> shape_compatible (Some [B, Some layersize]) (get_shape Y)"
proof -
  obtain ds where ds: "get_shape X = Some ds" and len: "1 < length ds"
    using assms by (cases "get_shape X") (auto simp add: onelayer_def shape_index_def split: if_splits)
  obtain F where d1: "ds ! 1 = Some F" and F: "0 < F"
    using assms ds len by (cases "ds ! 1") (auto simp add: onelayer_def shape_index_def split: if_splits)
  from assms ds len d1 F show ?thesis
    by (auto simp add: onelayer_def shape_index_def tf_random_normal_def tf_zeros_def
        tf_reduce_mean_def bind_b_Inr tf_matmul_Inr tf_add_Inr tf_nn_softmax_Inr
        tf_losses_softmax_cross_entropy_Inr dest!: matmul_shape_weights)
qed

lemma twolayer_eval:
  assumes X: "get_shape X = Some [B, Some F]" and F: "0 < F" and H: "0 < hiddensize"
    and dt: "dtype_of X = Float32"
    and Y: "shape_compatible (Some [B, Some outputsize]) (get_shape Y)"
  shows "twolayer X Y hiddensize outputsize g =
      (let w1 = Variable (RandomNormal [F, hiddensize] (sqrt (2 / real F))) ''layer_1_weights'' Float32;
           b1 = Variable (Zeros [hiddensize]) ''layer_1_biases'' Float32;
           w2 = Variable (RandomNormal [hiddensize, outputsize] (sqrt (2 / real hiddensize)))
                  ''layer_2_weights'' Float32;
           b2 = Variable (Zeros [outputsize]) ''layer_2_biases'' Float32;
           layer1_activation = Add (MatMul X w1) b1;
           layer1_output = Relu layer1_activation;
           logits = Add (MatMul layer1_output w2) b2;
           batch_xentropy = SoftmaxCrossEntropy Y logits
       in (Inr (w1, b1, w2, b2, logits, Softmax logits, batch_xentropy, ReduceMean batch_xentropy),
           g @ [RandomNormal [F, hiddensize] (sqrt (2 / real F)), w1, Zeros [hiddensize], b1,
                RandomNormal [hiddensize, outputsize] (sqrt (2 / real hiddensize)), w2,
                Zeros [outputsize], b2,
                MatMul X w1, layer1_activation, layer1_output, MatMul layer1_output w2, logits,
                batch_xentropy, ReduceMean batch_xentropy, Softmax logits]))"
  using assms
  by (simp add: twolayer_def shape_index_def tf_random_normal_def tf_zeros_def tf_matmul_def
      tf_add_def tf_losses_softmax_cross_entropy_def tf_reduce_mean_def tf_nn_softmax_def
      tf_nn_relu_def is_floating_def Let_def)

lemma twolayer_success:
  assumes "twolayer X Y hiddensize outputsize g = (Inr res, g')"
  shows "\<exists>B F. get_shape X = Some [B, Some F] \<and> 0 < F \<and> 0 < hiddensize \<and> dtype_of X = Float32
           \<and> shape_compatible (Some [B, Some outputsize]) (get_shape Y)"
proof -
  obtain ds where ds: "get_shape X = Some ds" and len: "1 < length ds"
    using assms by (cases "get_shape X") (auto simp add: twolayer_def shape_index_def split: if_splits)
  obtain F where d1: "ds ! 1 = Some F" and F: "0 < F"
    using assms ds len by (cases "ds ! 1") (auto simp add: twolayer_def shape_index_def split: if_splits)
  have H: "0 < hiddensize"
    using assms ds len d1 F by (cases "hiddensize = 0") (auto simp add: twolayer_def shape_index_def)
  from assms ds len d1 F H show ?thesis
    by (auto simp add: twolayer_def shape_index_def tf_random_normal_def tf_zeros_def
        tf_reduce_mean_def tf_nn_relu_def bind_b_Inr tf_matmul_Inr tf_add_Inr tf_nn_softmax_Inr
        tf_losses_softmax_cross_entropy_Inr dest!: matmul_shape_weights)
qed

lemma convnet_eval:
  assumes X: "get_shape X = Some [B, Some h, Some wd, Some ch]" and fl: "is_floating (dtype_of X)"
    and fs: "filter_shape = [kh, kw]" and cs: "1 < length convlayer_sizes"
  shows "convnet X Y convlayer_sizes filter_shape outputsize padding g =
     (let conv1 = Conv2d X (convlayer_sizes ! 0) filter_shape Same ReluActivation ''conv1'';
          conv2 = Conv2d conv1 (convlayer_sizes ! 1) filter_shape Same ReluActivation ''conv2'';
          flat = Reshape conv2 [- 1, int (h * wd * convlayer_sizes ! 1)]
      in bind_b (onelayer flat Y outputsize)
           (\<lambda>(w, b, logits, preds, batch_xentropy, batch_loss).
              return_b (conv1, conv2, w, b, logits, preds, batch_xentropy, batch_loss))
           (g @ [conv1, conv2, flat]))"
proof -
  from cs have cs0: "convlayer_sizes \<noteq> []" by auto
  show ?thesis
    using X fl fs cs cs0
    by (simp add: convnet_def shape_index_def list_index_def tf_layers_conv2d_def tf_reshape_def
        reshape_flat [OF refl] Let_def del: of_nat_mult)
qed

lemma convnet_success:
  assumes "convnet X Y convlayer_sizes filter_shape outputsize padding g = (Inr res, g')"
  shows "\<exists>B h wd ch kh kw. get_shape X = Some [B, Some h, Some wd, Some ch]
           \<and> is_floating (dtype_of X) \<and> filter_shape = [kh, kw] \<and> 1 < length convlayer_sizes"
  using assms
  by (auto simp add: convnet_def bind_b_Inr of_result_Inr shape_index_Inr list_index_Inr
      tf_layers_conv2d_same_Inr conv2d_shape_Same_Inr py_mul_Inr)


lemma convnet_example:
  "convnet (Placeholder Float32 (Some [None, Some 28, Some 28, Some 1]) ''images'')
           (Placeholder Float32 (Some [None, Some 10]) ''image_target_onehot'')
           [10, 10] [3, 3] 10 padding [] =
     (let X = Placeholder Float32 (Some [None, Some 28, Some 28, Some 1]) ''images'';
          Y = Placeholder Float32 (Some [None, Some 10]) ''image_target_onehot'';
          conv1 = Conv2d X 10 [3, 3] Same ReluActivation ''conv1'';
          conv2 = Conv2d conv1 10 [3, 3] Same ReluActivation ''conv2'';
          flat = Reshape conv2 [- 1, 7840];
          w = Variable (RandomNormal [7840, 10] (sqrt (2 / 7840))) ''weights'' Float32;
          b = Variable (Zeros [10]) ''biases'' Float32;
          logits = Add (MatMul flat w) b;
          batch_xentropy = SoftmaxCrossEntropy Y logits
      in (Inr (conv1, conv2, w, b, logits, Softmax logits, batch_xentropy,
               ReduceMean batch_xentropy),
          [conv1, conv2, flat, RandomNormal [7840, 10] (sqrt (2 / 7840)), w, Zeros [10], b,
           MatMul flat w, logits, batch_xentropy, ReduceMean batch_xentropy, Softmax logits]))"
proof -
  let ?X = "Placeholder Float32 (Some [None, Some 28, Some 28, Some 1]) ''images''"
  let ?Y = "Placeholder Float32 (Some [None, Some 10]) ''image_target_onehot''"
  let ?c2 = "Conv2d (Conv2d ?X 10 [3, 3] Same ReluActivation ''conv1'') 10 [3, 3] Same
               ReluActivation ''conv2''"
  have c2: "get_shape ?c2 = Some [None, Some 28, Some 28, Some 10]" by simp
  have flat: "get_shape (Reshape ?c2 [- 1, 7840]) = Some [None, Some 7840]"
    using reshape_rows [of "[None, Some 28, Some 28, Some 10]" 7840] c2
    by (simp del: get_shape.simps(11))
  have head: "onelayer (Reshape ?c2 [- 1, 7840]) ?Y 10 g =
      (let w = Variable (RandomNormal [7840, 10] (sqrt (2 / real 7840))) ''weights'' Float32;
           b = Variable (Zeros [10]) ''biases'' Float32;
           logits = Add (MatMul (Reshape ?c2 [- 1, 7840]) w) b;
           batch_xentropy = SoftmaxCrossEntropy ?Y logits
       in (Inr (w, b, logits, Softmax logits, batch_xentropy, ReduceMean batch_xentropy),
           g @ [RandomNormal [7840, 10] (sqrt (2 / real 7840)), w, Zeros [10], b,
                MatMul (Reshape ?c2 [- 1, 7840]) w, logits, batch_xentropy,
                ReduceMean batch_xentropy, Softmax logits]))" for g
    by (rule onelayer_eval [OF flat]) (simp_all add: shape_compatible_def dim_compatible_def)
  have step: "convnet ?X ?Y [10, 10] [3, 3] 10 padding [] =
      bind_b (onelayer (Reshape ?c2 [- 1, 7840]) ?Y 10)
        (\<lambda>(w, b, logits, preds, batch_xentropy, batch_loss).
           return_b (Conv2d ?X 10 [3, 3] Same ReluActivation ''conv1'', ?c2, w, b, logits, preds,
             batch_xentropy, batch_loss))
        [Conv2d ?X 10 [3, 3] Same ReluActivation ''conv1'', ?c2, Reshape ?c2 [- 1, 7840]]"
    using convnet_eval [of ?X None 28 28 1 "[3, 3]" 3 3 "[10, 10]" ?Y 10 padding "[]"]
    by (simp add: is_floating_def Let_def)
  show ?thesis
    unfolding step bind_b_def head by (simp add: Let_def)
qed


subsection \<open>The placeholders\<close>

text \<open>
  C9. \<open>input_placeholder()\<close> registers and returns one float32 placeholder of static shape
  (unknown, 784), \<open>target_placeholder()\<close> one of static shape (unknown, 10); a batch of
  \<open>n\<close> rows of length 784, respectively 10, is compatible with that shape for every \<open>n\<close>,
  so in particular for every positive \<open>n\<close>.
\<close>

theorem placeholders_accept_any_batch:
  "(let X = Placeholder Float32 (Some [None, Some 784]) ''image_input'';
        Y = Placeholder Float32 (Some [None, Some 10]) ''image_target_onehot''
    in input_placeholder g = (Inr X, g @ [X])
       \<and> dtype_of X = Float32 \<and> get_shape X = Some [None, Some 784]
       \<and> feed_compatible X [n, 784]
       \<and> target_placeholder g = (Inr Y, g @ [Y])
       \<and> dtype_of Y = Float32 \<and> get_shape Y = Some [None, Some 10]
       \<and> feed_compatible Y [n, 10])"
  by (simp add: input_placeholder_def target_placeholder_def tf_placeholder_def
      feed_compatible_def shape_compatible_def dim_compatible_def)

subsection \<open>The one-layer model\<close>




text \<open>
  C8. When the second static dimension of \<open>X\<close> is not known (the rank is unknown, the rank
  is below two, or the dimension itself is unknown), \<open>onelayer\<close> raises and the graph is
  as it was before the call: no node has been created.
\<close>

theorem onelayer_unknown_feature_dim_fails:
  assumes "\<forall>F. shape_index (get_shape X) 1 \<noteq> Inr (Some F)"
  shows "\<exists>e. onelayer X Y layersize g = (Inl e, g)"
proof (cases "shape_index (get_shape X) 1")
  case (Inl e)
  then show ?thesis by (simp add: onelayer_def)
next
  case (Inr d)
  with assms have "d = None" by (cases d) auto
  with Inr show ?thesis by (simp add: onelayer_def)
qed

theorem onelayer_unknown_feature_dim_fails_witness:
  "(\<forall>F. shape_index (get_shape (Placeholder Float32 (Some [None, None]) ''x'')) 1 \<noteq> Inr (Some F))
   \<and> (\<exists>e. onelayer (Placeholder Float32 (Some [None, None]) ''x'')
              (Placeholder Float32 (Some [None, Some 10]) ''y'') 10 [] = (Inl e, []))"
proof -
  have h: "\<forall>F. shape_index (get_shape (Placeholder Float32 (Some [None, None]) ''x'')) 1 \<noteq> Inr (Some F)"
    by (simp add: shape_index_def)
  from onelayer_unknown_feature_dim_fails [OF h] h show ?thesis by blast
qed

subsection \<open>The two-layer model\<close>

text \<open>
  What \<open>twolayer\<close> builds. It returns exactly on a float32 input of static shape
  (batch, \<open>F\<close>) with \<open>F\<close> and \<open>hiddensize\<close> positive and a target compatible with
  (batch, \<open>outputsize\<close>), and then it has built two stacked affine transforms: weights of
  shape (\<open>F\<close>, \<open>hiddensize\<close>) drawn with standard deviation \<open>sqrt (2 / F)\<close> and zero
  biases, a rectified-linear activation, then weights of shape (\<open>hiddensize\<close>, \<open>outputsize\<close>)
  drawn with standard deviation \<open>sqrt (2 / hiddensize)\<close> and zero biases, which give the
  logits. The seventh value returned is the node of the library cross-entropy call.
\<close>

lemma twolayer_structure:
  "twolayer X Y hiddensize outputsize g = (Inr res, g') \<longleftrightarrow>
     (\<exists>B F. get_shape X = Some [B, Some F] \<and> 0 < F \<and> 0 < hiddensize \<and> dtype_of X = Float32
        \<and> shape_compatible (Some [B, Some outputsize]) (get_shape Y)
        \<and> (let w1 = Variable (RandomNormal [F, hiddensize] (sqrt (2 / real F)))
                       ''layer_1_weights'' Float32;
                b1 = Variable (Zeros [hiddensize]) ''layer_1_biases'' Float32;
                w2 = Variable (RandomNormal [hiddensize, outputsize] (sqrt (2 / real hiddensize)))
                       ''layer_2_weights'' Float32;
                b2 = Variable (Zeros [outputsize]) ''layer_2_biases'' Float32;
                layer1_activation = Add (MatMul X w1) b1;
                layer1_output = Relu layer1_activation;
                logits = Add (MatMul layer1_output w2) b2;
                batch_xentropy = SoftmaxCrossEntropy Y logits
            in res = (w1, b1, w2, b2, logits, Softmax logits, batch_xentropy,
                      ReduceMean batch_xentropy)
               \<and> g' = g @ [RandomNormal [F, hiddensize] (sqrt (2 / real F)), w1,
                     Zeros [hiddensize], b1,
                     RandomNormal [hiddensize, outputsize] (sqrt (2 / real hiddensize)), w2,
                     Zeros [outputsize], b2,
                     MatMul X w1, layer1_activation, layer1_output, MatMul layer1_output w2,
                     logits, batch_xentropy, ReduceMean batch_xentropy, Softmax logits]))"
  (is "?L \<longleftrightarrow> ?R")
proof
  assume l: ?L
  from twolayer_success [OF l] obtain B F
    where "get_shape X = Some [B, Some F]" "0 < F" "0 < hiddensize" "dtype_of X = Float32"
      "shape_compatible (Some [B, Some outputsize]) (get_shape Y)" by blast
  with l show ?R by (auto simp add: twolayer_eval Let_def)
next
  assume ?R
  then show ?L by (auto simp add: twolayer_eval Let_def)
qed

lemma twolayer_structure_example:
  "\<exists>w1 b1 w2 b2 logits preds batch_xentropy batch_loss g'.
     twolayer (Placeholder Float32 (Some [None, Some 784]) ''image_input'')
              (Placeholder Float32 (Some [None, Some 10]) ''image_target_onehot'') 30 10 [] =
       (Inr (w1, b1, w2, b2, logits, preds, batch_xentropy, batch_loss), g')
     \<and> w1 = Variable (RandomNormal [784, 30] (sqrt (2 / 784))) ''layer_1_weights'' Float32
     \<and> w2 = Variable (RandomNormal [30, 10] (sqrt (2 / 30))) ''layer_2_weights'' Float32
     \<and> length g' = 16"
  using twolayer_structure [of "Placeholder Float32 (Some [None, Some 784]) ''image_input''"
      "Placeholder Float32 (Some [None, Some 10]) ''image_target_onehot''" 30 10 "[]"]
  by (simp add: shape_compatible_def dim_compatible_def Let_def)

text \<open>
  C5 says that \<open>twolayer\<close> builds the two stacked affine transforms and returns
  (W1, b1, W2, b2, logits, predictions, per-example loss, mean loss). The docstring of
  \<open>twolayer\<close> says the same of \<open>batch_xentropy\<close>: the cross-entropy loss for each image in
  the batch. On the two placeholders of the file, with 30 hidden units and 10 outputs, the
  layers are built as the claim says (standard deviations \<open>sqrt (2 / 784)\<close> and
  \<open>sqrt (2 / 30)\<close>, a rectified-linear activation between them, logits of static shape
  (unknown, 10)), but the seventh value returned is the node of
  \<open>tf.losses.softmax_cross_entropy\<close>, which reduces over the batch: it has the scalar shape,
  not the shape (unknown) of a vector with one loss per example.
\<close>

theorem twolayer_xentropy_is_scalar:
  "\<exists>w1 b1 w2 b2 logits preds batch_xentropy batch_loss g'.
     twolayer (Placeholder Float32 (Some [None, Some 784]) ''image_input'')
              (Placeholder Float32 (Some [None, Some 10]) ''image_target_onehot'') 30 10 [] =
       (Inr (w1, b1, w2, b2, logits, preds, batch_xentropy, batch_loss), g')
     \<and> w1 = Variable (RandomNormal [784, 30] (sqrt (2 / 784))) ''layer_1_weights'' Float32
     \<and> w2 = Variable (RandomNormal [30, 10] (sqrt (2 / 30))) ''layer_2_weights'' Float32
     \<and> logits = Add (MatMul (Relu (Add (MatMul
           (Placeholder Float32 (Some [None, Some 784]) ''image_input'') w1) b1)) w2) b2
     \<and> get_shape logits = Some [None, Some 10]
     \<and> batch_xentropy =
           SoftmaxCrossEntropy (Placeholder Float32 (Some [None, Some 10]) ''image_target_onehot'')
             logits
     \<and> get_shape batch_xentropy = Some []
     \<and> get_shape batch_xentropy \<noteq> Some [None]"
  by (simp add: twolayer_eval [where B = None and F = 784] shape_compatible_def
      dim_compatible_def Let_def)

subsection \<open>The value of the loss\<close>



subsection \<open>The loss returned by the one-layer model\<close>

text \<open>
  C1 says that the fifth value returned by \<open>onelayer\<close> is the cross-entropy of each image of
  the batch, a vector with one entry per image, and the sixth its arithmetic mean. The
  docstring of \<open>onelayer\<close> says the same of \<open>batch_xentropy\<close>. The code calls
  \<open>tf.losses.softmax_cross_entropy\<close>, which reduces over the batch: on the two placeholders
  of the file the logits have static shape (unknown, 10) and the fifth value returned has
  the scalar shape, not the shape (unknown) of a vector over the batch.
\<close>

theorem onelayer_xentropy_is_scalar:
  "\<exists>w b logits preds batch_xentropy batch_loss g'.
     onelayer (Placeholder Float32 (Some [None, Some 784]) ''image_input'')
              (Placeholder Float32 (Some [None, Some 10]) ''image_target_onehot'') 10 [] =
       (Inr (w, b, logits, preds, batch_xentropy, batch_loss), g')
     \<and> get_shape logits = Some [None, Some 10]
     \<and> get_shape batch_xentropy = Some []
     \<and> get_shape batch_xentropy \<noteq> Some [None]"
  by (simp add: onelayer_eval [where B = None and F = 784] shape_compatible_def
      dim_compatible_def Let_def)

subsection \<open>The convolutional model\<close>

text \<open>
  C6. When \<open>convnet\<close> returns, its input has static shape (batch, h, w, channels) with h and
  w known, the second convolution has static shape (batch, h, w, \<open>convlayer_sizes[1]\<close>), the
  flattened tensor is that convolution reshaped to rows of \<open>h * w * convlayer_sizes[1]\<close>
  features, one row per example, and the last six values returned are exactly the six
  values \<open>onelayer\<close> returns on the flattened tensor, \<open>Y\<close> and \<open>outputsize\<close>, called in
  the graph that holds the two convolutions and the reshape.
\<close>

theorem convnet_delegates_to_onelayer:
  assumes "convnet X Y convlayer_sizes filter_shape outputsize padding g =
             (Inr (conv1, conv2, w, b, logits, preds, batch_xentropy, batch_loss), g')"
  shows "\<exists>B h wd ch.
           get_shape X = Some [B, Some h, Some wd, Some ch]
           \<and> get_shape conv2 = Some [B, Some h, Some wd, Some (convlayer_sizes ! 1)]
           \<and> (let flat = Reshape conv2 [- 1, int (h * wd * convlayer_sizes ! 1)]
              in get_shape flat = Some [B, Some (h * wd * convlayer_sizes ! 1)]
                 \<and> onelayer flat Y outputsize (g @ [conv1, conv2, flat]) =
                      (Inr (w, b, logits, preds, batch_xentropy, batch_loss), g'))"
proof -
  from convnet_success [OF assms] obtain B h wd ch kh kw
    where X: "get_shape X = Some [B, Some h, Some wd, Some ch]"
      and fl: "is_floating (dtype_of X)" and fs: "filter_shape = [kh, kw]"
      and cs: "1 < length convlayer_sizes" by blast
  let ?c1 = "Conv2d X (convlayer_sizes ! 0) filter_shape Same ReluActivation ''conv1''"
  let ?c2 = "Conv2d ?c1 (convlayer_sizes ! 1) filter_shape Same ReluActivation ''conv2''"
  let ?n = "h * wd * convlayer_sizes ! 1"
  let ?flat = "Reshape ?c2 [- 1, int ?n]"
  have c2: "get_shape ?c2 = Some [B, Some h, Some wd, Some (convlayer_sizes ! 1)]"
    using X fs by simp
  from assms
  have run: "onelayer ?flat Y outputsize (g @ [?c1, ?c2, ?flat]) =
               (Inr (w, b, logits, preds, batch_xentropy, batch_loss), g')"
    and eq: "conv1 = ?c1" "conv2 = ?c2"
    by (auto simp add: convnet_eval [OF X fl fs cs] Let_def bind_b_Inr simp del: of_nat_mult)
  from onelayer_success [OF run] obtain B' F where "get_shape ?flat = Some [B', Some F]" "0 < F"
    by blast
  then have "0 < ?n"
    using c2 by (auto simp add: reshape_flat [OF refl] simp del: of_nat_mult get_shape.simps(5-11) split: if_splits)
  then have "get_shape ?flat = Some [B, Some ?n]"
    using c2 by (simp add: reshape_flat [OF refl] del: of_nat_mult)
  with X c2 run eq show ?thesis by (simp add: Let_def del: of_nat_mult)
qed

theorem convnet_delegates_to_onelayer_witness:
  "\<exists>conv1 conv2 w b logits preds batch_xentropy batch_loss g'.
     convnet (Placeholder Float32 (Some [None, Some 28, Some 28, Some 1]) ''images'')
             (Placeholder Float32 (Some [None, Some 10]) ''image_target_onehot'')
             [10, 10] [3, 3] 10 ''same'' [] =
       (Inr (conv1, conv2, w, b, logits, preds, batch_xentropy, batch_loss), g')
     \<and> get_shape conv2 = Some [None, Some 28, Some 28, Some 10]
     \<and> get_shape (Reshape conv2 [- 1, 7840]) = Some [None, Some 7840]
     \<and> onelayer (Reshape conv2 [- 1, 7840])
           (Placeholder Float32 (Some [None, Some 10]) ''image_target_onehot'') 10
           [conv1, conv2, Reshape conv2 [- 1, 7840]] =
         (Inr (w, b, logits, preds, batch_xentropy, batch_loss), g')"
proof -
  let ?X = "Placeholder Float32 (Some [None, Some 28, Some 28, Some 1]) ''images''"
  let ?Y = "Placeholder Float32 (Some [None, Some 10]) ''image_target_onehot''"
  have "\<exists>res g'. convnet ?X ?Y [10, 10] [3, 3] 10 ''same'' [] = (Inr res, g')"
    unfolding convnet_example by (simp add: Let_def)
  then obtain conv1 conv2 w b logits preds batch_xentropy batch_loss g'
    where run: "convnet ?X ?Y [10, 10] [3, 3] 10 ''same'' [] =
      (Inr (conv1, conv2, w, b, logits, preds, batch_xentropy, batch_loss), g')"
    by (metis prod_cases6 prod_cases3)
  from convnet_delegates_to_onelayer [OF run] obtain B h wd ch
    where x: "get_shape ?X = Some [B, Some h, Some wd, Some ch]"
      and c2: "get_shape conv2 = Some [B, Some h, Some wd, Some ([10, 10] ! 1)]"
      and rest: "let flat = Reshape conv2 [- 1, int (h * wd * [10, 10] ! 1)]
              in get_shape flat = Some [B, Some (h * wd * [10, 10] ! 1)]
                 \<and> onelayer flat ?Y 10 ([] @ [conv1, conv2, flat]) =
                      (Inr (w, b, logits, preds, batch_xentropy, batch_loss), g')"
    by blast
  from x have "B = None" "h = 28" "wd = 28" by simp_all
  with c2 rest have "get_shape conv2 = Some [None, Some 28, Some 28, Some 10]"
    "get_shape (Reshape conv2 [- 1, 7840]) = Some [None, Some 7840]"
    "onelayer (Reshape conv2 [- 1, 7840]) ?Y 10 [conv1, conv2, Reshape conv2 [- 1, 7840]] =
       (Inr (w, b, logits, preds, batch_xentropy, batch_loss), g')"
    by (simp_all add: Let_def del: get_shape.simps)
  with run show ?thesis by blast
qed

text \<open>
  C2 says that both convolutions are built with the padding mode passed to \<open>convnet\<close>. The
  body passes the literal \<open>"same"\<close> to both calls and never reads its parameter
  \<open>padding\<close>: called with \<open>padding = "valid"\<close> on 28 by 28 images with 3 by 3 filters it
  builds two same-padded layers of spatial size 28 by 28, where a valid-padded first layer
  has spatial size 26 by 26.
\<close>

theorem convnet_ignores_padding:
  "\<exists>conv1 conv2 w b logits preds batch_xentropy batch_loss g'.
     convnet (Placeholder Float32 (Some [None, Some 28, Some 28, Some 1]) ''images'')
             (Placeholder Float32 (Some [None, Some 10]) ''image_target_onehot'')
             [10, 10] [3, 3] 10 ''valid'' [] =
       (Inr (conv1, conv2, w, b, logits, preds, batch_xentropy, batch_loss), g')
     \<and> conv1 = Conv2d (Placeholder Float32 (Some [None, Some 28, Some 28, Some 1]) ''images'')
                 10 [3, 3] Same ReluActivation ''conv1''
     \<and> conv2 = Conv2d conv1 10 [3, 3] Same ReluActivation ''conv2''
     \<and> get_shape conv1 = Some [None, Some 28, Some 28, Some 10]
     \<and> get_shape conv2 = Some [None, Some 28, Some 28, Some 10]
     \<and> normalize_padding ''valid'' = Inr Valid
     \<and> get_shape (Conv2d (Placeholder Float32 (Some [None, Some 28, Some 28, Some 1]) ''images'')
                 10 [3, 3] Valid ReluActivation ''conv1'') =
         Some [None, Some 26, Some 26, Some 10]"
  unfolding convnet_example by (simp add: normalize_padding_def lower_char_def Let_def)

subsection \<open>The training step\<close>

text \<open>
  C7. For a batch of at least two entries and two distinct placeholders, \<open>train_step\<close>
  makes one call of the session's \<open>run\<close>: the fetches are the list
  (train_op, loss_op, summaries_op), the feed dictionary binds \<open>X\<close> to \<open>batch[0]\<close> and \<open>Y\<close>
  to \<open>batch[1]\<close> and nothing else, and the three results of that call are returned as a
  tuple in the order of the fetches. On a session that counts its \<open>run\<close> calls the count
  grows by exactly one.
\<close>

theorem train_step_single_run:
  assumes len: "1 < length batch" and distinct: "X \<noteq> Y"
  shows "\<exists>feed. feed X = Some (batch ! 0) \<and> feed Y = Some (batch ! 1) \<and> dom feed = {X, Y}
     \<and> train_step run sess batch X Y train_op loss_op summaries_op =
         (case run sess [train_op, loss_op, summaries_op] feed of
            (Inl e, sess') \<Rightarrow> (Inl e, sess')
          | (Inr [train_result, loss, summary], sess') \<Rightarrow>
              (Inr (train_result, loss, summary), sess')
          | (Inr rs, sess') \<Rightarrow> (Inl ValueError, sess'))
     \<and> snd (train_step (counting run) (k, sess) batch X Y train_op loss_op summaries_op) =
         (Suc k, snd (run sess [train_op, loss_op, summaries_op] feed))"
proof -
  let ?feed = "Map.empty(X \<mapsto> batch ! 0, Y \<mapsto> batch ! 1)"
  from len have i: "list_index batch 0 = Inr (batch ! 0)" "list_index batch 1 = Inr (batch ! 1)"
    by (auto simp add: list_index_def)
  have "?feed X = Some (batch ! 0)" "?feed Y = Some (batch ! 1)" "dom ?feed = {X, Y}"
    using distinct by auto
  moreover have "train_step run sess batch X Y train_op loss_op summaries_op =
         (case run sess [train_op, loss_op, summaries_op] ?feed of
            (Inl e, sess') \<Rightarrow> (Inl e, sess')
          | (Inr [train_result, loss, summary], sess') \<Rightarrow>
              (Inr (train_result, loss, summary), sess')
          | (Inr rs, sess') \<Rightarrow> (Inl ValueError, sess'))"
    using i by (simp add: train_step_def)
  moreover have "snd (train_step (counting run) (k, sess) batch X Y train_op loss_op summaries_op) =
         (Suc k, snd (run sess [train_op, loss_op, summaries_op] ?feed))"
    using i by (auto simp add: train_step_def counting_def split: prod.splits sum.splits list.splits)
  ultimately show ?thesis by blast
qed

theorem train_step_single_run_witness:
  "1 < length [3, 4 :: nat]
   \<and> Placeholder Float32 (Some [None, Some 784]) ''image_input'' \<noteq>
       Placeholder Float32 (Some [None, Some 10]) ''image_target_onehot''
   \<and> train_step (\<lambda>s fetches feed. (Inr (map (\<lambda>t. the (feed t)) [hd fetches, hd fetches, hd fetches]), s + 1))
         (5 :: nat) [3, 4 :: nat]
         (Placeholder Float32 (Some [None, Some 784]) ''image_input'')
         (Placeholder Float32 (Some [None, Some 10]) ''image_target_onehot'')
         (Placeholder Float32 (Some [None, Some 784]) ''image_input'')
         (Placeholder Float32 (Some [None, Some 10]) ''image_target_onehot'')
         (Placeholder Float32 (Some [None, Some 10]) ''image_target_onehot'')
       = (Inr (3, 3, 3), 6)
   \<and> snd (train_step (counting (\<lambda>s fetches feed.
           (Inr (map (\<lambda>t. the (feed t)) [hd fetches, hd fetches, hd fetches]), s + 1)))
         (0, 5 :: nat) [3, 4 :: nat]
         (Placeholder Float32 (Some [None, Some 784]) ''image_input'')
         (Placeholder Float32 (Some [None, Some 10]) ''image_target_onehot'')
         (Placeholder Float32 (Some [None, Some 784]) ''image_input'')
         (Placeholder Float32 (Some [None, Some 10]) ''image_target_onehot'')
         (Placeholder Float32 (Some [None, Some 10]) ''image_target_onehot''))
       = (1, 6)"
proof -
  let ?X = "Placeholder Float32 (Some [None, Some 784]) ''image_input''"
  let ?Y = "Placeholder Float32 (Some [None, Some 10]) ''image_target_onehot''"
  let ?run = "\<lambda>(s :: nat) (fetches :: tensor list) (feed :: tensor \<rightharpoonup> nat).
     (Inr (map (\<lambda>t. the (feed t)) [hd fetches, hd fetches, hd fetches]) :: error + nat list, s + 1)"
  have len: "1 < length [3, 4 :: nat]" by simp
  have ne: "?X \<noteq> ?Y" by simp
  from train_step_single_run [OF len ne, of ?run 5 ?X ?Y ?Y 0]
  obtain feed where "feed ?X = Some ([3, 4] ! 0)"
    and "train_step ?run 5 [3, 4] ?X ?Y ?X ?Y ?Y =
         (case ?run 5 [?X, ?Y, ?Y] feed of
            (Inl e, sess') \<Rightarrow> (Inl e, sess')
          | (Inr [train_result, loss, summary], sess') \<Rightarrow>
              (Inr (train_result, loss, summary), sess')
          | (Inr rs, sess') \<Rightarrow> (Inl ValueError, sess'))"
    and "snd (train_step (counting ?run) (0, 5) [3, 4] ?X ?Y ?X ?Y ?Y) =
         (Suc 0, snd (?run 5 [?X, ?Y, ?Y] feed))"
    by blast
  then show ?thesis using len ne by simp
qed



end
